theory Spec2Isabelle
  imports Main
begin

text \<open>
  The session manager of the DataLab server: the registry of sessions, the handling of
  connect and disconnect events, the chain of message processors, and the default notebook
  of a new session, in the two variants of the class found in the sources
  (\<open>SessionManager\<close> in sessions/manager.ts and its predecessor \<open>MessagePipeline\<close>).
\<close>

section \<open>JavaScript values, errors and observable effects\<close>

text \<open>
  A message has the TypeScript type \<open>any\<close>.  The only value the code distinguishes is
  \<open>null\<close>, the marker a processor returns to filter a message; every other value is
  an opaque payload.
\<close>

datatype 'm jsval = Null | Val 'm

text \<open>Values thrown by the code or by one of its collaborators.\<close>

datatype js_error = TypeError string | Error string

text \<open>
  What a run of the message handler does that an observer can see, in program order:
  the call of the processor at an index with its argument, the line written by
  \<open>console.log\<close>, and the call of the delivery callback with its argument.
\<close>

datatype 'm event =
    Invoked nat "'m jsval"
  | ConsoleLog string string
  | Delivered "'m jsval"

text \<open>
  \<open>app.MessageProcessor\<close>: called with the message and the session, it returns a value
  (possibly \<open>null\<close>) or throws; it is taken as a function of its two arguments.  \<open>app.EventHandler\<close>: the callback that gives control
  back to the session; its return value is ignored, it may throw.
\<close>

type_synonym ('m, 's) MessageProcessor = "'m jsval \<Rightarrow> 's \<Rightarrow> js_error + 'm jsval"

type_synonym 'm EventHandler = "'m jsval \<Rightarrow> js_error + unit"

fun deliveries :: "'m event list \<Rightarrow> 'm jsval list" where
  "deliveries [] = []"
| "deliveries (Delivered v # tr) = v # deliveries tr"
| "deliveries (_ # tr) = deliveries tr"

fun invocations :: "'m event list \<Rightarrow> (nat \<times> 'm jsval) list" where
  "invocations [] = []"
| "invocations (Invoked i v # tr) = (i, v) # invocations tr"
| "invocations (_ # tr) = invocations tr"

section \<open>Objects used as dictionaries\<close>

text \<open>
  Both registries (\<open>_idToSession\<close>) and the cell table of a notebook are created by the
  object literal \<open>{}\<close> and read by \<open>obj[key]\<close>.  Such an object inherits from
  \<open>Object.prototype\<close>, and a read walks the prototype chain: for a key the object does
  not own, the read gives the member of \<open>Object.prototype\<close> of that name when there is
  one (a function, or the prototype itself for \<open>__proto__\<close>; all of them truthy), and
  \<open>undefined\<close> otherwise.
\<close>

definition Object_prototype_names :: "string list" where
  "Object_prototype_names =
     [''constructor'', ''__defineGetter__'', ''__defineSetter__'', ''hasOwnProperty'',
      ''__lookupGetter__'', ''__lookupSetter__'', ''isPrototypeOf'',
      ''propertyIsEnumerable'', ''toString'', ''valueOf'', ''__proto__'',
      ''toLocaleString'']"

datatype 'a js_property = Undefined | Inherited | Own 'a

definition js_get :: "(string \<rightharpoonup> 'a) \<Rightarrow> string \<Rightarrow> 'a js_property" where
  "js_get obj key =
     (case obj key of
        Some v \<Rightarrow> Own v
      | None \<Rightarrow> if key \<in> set Object_prototype_names then Inherited else Undefined)"

section \<open>Sessions\<close>

text \<open>
  The bound method \<open>this._handleMessage.bind(this)\<close> that a manager hands to each
  session it creates.
\<close>

datatype forwarding = SessionManager_handleMessage_bound | MessagePipeline_handleMessage_bound

text \<open>
  Modelled from the spec: the class \<open>sessions.Session\<close> (module \<open>./session\<close>) is not
  among the sources.  A Session owns its key, one current connection reference, which can
  be replaced and which is cleared in the state DETACHED, one kernel handle, one document
  reference and the forwarding callback supplied by its creator.
\<close>

record ('c, 'k, 'n) Session =
  session_id :: string
  userconn :: "'c option"
  kernel :: 'k
  notebook :: 'n
  messageHandler :: forwarding

text \<open>Modelled from the spec: the constructor of \<open>sessions.Session\<close>.\<close>

definition new_Session ::
  "string \<Rightarrow> 'c \<Rightarrow> 'k \<Rightarrow> 'n \<Rightarrow> forwarding \<Rightarrow> ('c, 'k, 'n) Session" where
  "new_Session sessionId connection k nb handler =
     \<lparr>session_id = sessionId, userconn = Some connection, kernel = k, notebook = nb,
      messageHandler = handler\<rparr>"

text \<open>
  Modelled from the spec: \<open>Session.updateUserConnection\<close> replaces the current
  connection reference and leaves the kernel and document bindings untouched.
\<close>

definition updateUserConnection ::
  "('c, 'k, 'n) Session \<Rightarrow> 'c \<Rightarrow> ('c, 'k, 'n) Session" where
  "updateUserConnection session connection = session\<lparr>userconn := Some connection\<rparr>"

section \<open>The two managers\<close>

text \<open>
  \<open>SessionManager\<close> (sessions/manager.ts) and \<open>MessagePipeline\<close> (the older variant of the
  same class).  The fields that hold collaborators (\<open>_kernelManager\<close>,
  \<open>_userconnManager\<close>) are parameters of the operations below; the records hold the
  data.  A Session object is mutated in place by the code; here the registry maps the key
  to the current value of that object.
\<close>

record ('m, 's, 'c, 'k, 'n, 'st) SessionManager =
  sm_idToSession :: "string \<rightharpoonup> ('c, 'k, 'n) Session"
  sm_messageProcessors :: "('m, 's) MessageProcessor list"
  sm_storage :: 'st

record ('m, 's, 'c, 'k, 'n) MessagePipeline =
  mp_idToSession :: "string \<rightharpoonup> ('c, 'k, 'n) Session"
  mp_messageProcessors :: "('m, 's) MessageProcessor list"

section \<open>The message handler\<close>

text \<open>
  \<open>SessionManager._handleMessage\<close>, manager.ts lines 84-104.  The \<open>for\<close> loop runs over
  the index \<open>i\<close>; \<open>processedMessage\<close> is the loop variable, \<open>message\<close> the original
  argument, which only the log line reads.  \<open>JSON.stringify\<close> is a parameter: it throws on
  a cyclic value.  The loop returns the events so far and either the thrown value or the
  value of \<open>processedMessage\<close> at loop exit.
\<close>

function SessionManager_handleMessage_loop ::
  "('m jsval \<Rightarrow> js_error + string) \<Rightarrow> ('m, 's) MessageProcessor list \<Rightarrow> 'm jsval \<Rightarrow> 's \<Rightarrow>
   nat \<Rightarrow> 'm jsval \<Rightarrow> 'm event list \<Rightarrow> 'm event list \<times> (js_error + 'm jsval)" where
  "SessionManager_handleMessage_loop JSON_stringify ps message session i processedMessage tr =
     (if i < length ps then
        (case (ps ! i) processedMessage session of
           Inl e \<Rightarrow> (tr @ [Invoked i processedMessage], Inl e)
         | Inr r \<Rightarrow>
             if r = Null then
               (case JSON_stringify message of
                  Inl e \<Rightarrow> (tr @ [Invoked i processedMessage], Inl e)
                | Inr str \<Rightarrow>
                    (tr @ [Invoked i processedMessage, ConsoleLog ''Filtered: '' str], Inr Null))
             else
               SessionManager_handleMessage_loop JSON_stringify ps message session (Suc i) r
                 (tr @ [Invoked i processedMessage]))
      else (tr, Inr processedMessage))"
  by pat_completeness auto
termination
  by (relation "measure (\<lambda>(js, ps, message, session, i, pm, tr). length ps - i)") auto

declare SessionManager_handleMessage_loop.simps [simp del]

definition SessionManager_handleMessage ::
  "('m jsval \<Rightarrow> js_error + string) \<Rightarrow> ('m, 's, 'c, 'k, 'n, 'st) SessionManager \<Rightarrow> 'm jsval \<Rightarrow>
   's \<Rightarrow> 'm EventHandler \<Rightarrow>
   'm event list \<times> (js_error + unit) \<times> ('m, 's, 'c, 'k, 'n, 'st) SessionManager" where
  "SessionManager_handleMessage JSON_stringify this message session callback =
     (case SessionManager_handleMessage_loop JSON_stringify (sm_messageProcessors this)
             message session 0 message [] of
        (tr, Inl e) \<Rightarrow> (tr, Inl e, this)
      | (tr, Inr processedMessage) \<Rightarrow>
          if processedMessage \<noteq> Null
          then (tr @ [Delivered processedMessage], callback processedMessage, this)
          else (tr, Inr (), this))"

text \<open>\<open>MessagePipeline._handleMessage\<close>, lines 115-135 of the older variant.\<close>

function MessagePipeline_handleMessage_loop ::
  "('m jsval \<Rightarrow> js_error + string) \<Rightarrow> ('m, 's) MessageProcessor list \<Rightarrow> 'm jsval \<Rightarrow> 's \<Rightarrow>
   nat \<Rightarrow> 'm jsval \<Rightarrow> 'm event list \<Rightarrow> 'm event list \<times> (js_error + 'm jsval)" where
  "MessagePipeline_handleMessage_loop JSON_stringify ps message session i processedMessage tr =
     (if i < length ps then
        (case (ps ! i) processedMessage session of
           Inl e \<Rightarrow> (tr @ [Invoked i processedMessage], Inl e)
         | Inr r \<Rightarrow>
             if r = Null then
               (case JSON_stringify message of
                  Inl e \<Rightarrow> (tr @ [Invoked i processedMessage], Inl e)
                | Inr str \<Rightarrow>
                    (tr @ [Invoked i processedMessage, ConsoleLog ''Filtered: '' str], Inr Null))
             else
               MessagePipeline_handleMessage_loop JSON_stringify ps message session (Suc i) r
                 (tr @ [Invoked i processedMessage]))
      else (tr, Inr processedMessage))"
  by pat_completeness auto
termination
  by (relation "measure (\<lambda>(js, ps, message, session, i, pm, tr). length ps - i)") auto

declare MessagePipeline_handleMessage_loop.simps [simp del]

definition MessagePipeline_handleMessage ::
  "('m jsval \<Rightarrow> js_error + string) \<Rightarrow> ('m, 's, 'c, 'k, 'n) MessagePipeline \<Rightarrow> 'm jsval \<Rightarrow>
   's \<Rightarrow> 'm EventHandler \<Rightarrow>
   'm event list \<times> (js_error + unit) \<times> ('m, 's, 'c, 'k, 'n) MessagePipeline" where
  "MessagePipeline_handleMessage JSON_stringify this message session callback =
     (case MessagePipeline_handleMessage_loop JSON_stringify (mp_messageProcessors this)
             message session 0 message [] of
        (tr, Inl e) \<Rightarrow> (tr, Inl e, this)
      | (tr, Inr processedMessage) \<Rightarrow>
          if processedMessage \<noteq> Null
          then (tr @ [Delivered processedMessage], callback processedMessage, this)
          else (tr, Inr (), this))"

text \<open>
  The run of a chain written by recursion on the processors that remain, \<open>k\<close> being the
  index of the first of them: the form the proofs use.
\<close>

fun chain_from ::
  "('m jsval \<Rightarrow> js_error + string) \<Rightarrow> 'm jsval \<Rightarrow> 's \<Rightarrow> nat \<Rightarrow> ('m, 's) MessageProcessor list \<Rightarrow>
   'm jsval \<Rightarrow> 'm event list \<times> (js_error + 'm jsval)" where
  "chain_from JSON_stringify message session k [] v = ([], Inr v)"
| "chain_from JSON_stringify message session k (p # ps) v =
     (case p v session of
        Inl e \<Rightarrow> ([Invoked k v], Inl e)
      | Inr r \<Rightarrow>
          if r = Null then
            (case JSON_stringify message of
               Inl e \<Rightarrow> ([Invoked k v], Inl e)
             | Inr str \<Rightarrow> ([Invoked k v, ConsoleLog ''Filtered: '' str], Inr Null))
          else
            (case chain_from JSON_stringify message session (Suc k) ps r of
               (tr, out) \<Rightarrow> (Invoked k v # tr, out)))"

section \<open>Collaborators\<close>

text \<open>
  The kernel manager, the port allocator (\<open>utils.getAvailablePort\<close>), the identifier
  generator (\<open>uuid.v4\<close> of node-uuid), the class \<open>notebooks.ActiveNotebook\<close> and the
  accessor \<open>getSessionId\<close> of a connection are used by the managers and defined elsewhere.
  They are parameters.  Each call that has an effect outside the manager takes the state
  \<open>'w\<close> of the outside world and returns the new one; a call that can fail returns the
  thrown value on the left.  The constructor of \<open>ActiveNotebook\<close> takes a path and the
  storage in manager.ts, and a notebook in the older variant.
\<close>

record kernel_config =
  iopubPort :: nat
  shellPort :: nat

record Cell =
  cell_id :: string
  cell_type :: string
  source :: string
  active :: "bool option"

record Notebook =
  nb_id :: string
  cells :: "string \<rightharpoonup> Cell"
  worksheet :: "string list"

record ('w, 'c, 'k, 'n, 'st) collaborators =
  getSessionId :: "'c \<Rightarrow> string"
  getAvailablePort :: "'w \<Rightarrow> (js_error + nat) \<times> 'w"
  kernelManager_create :: "kernel_config \<Rightarrow> 'w \<Rightarrow> (js_error + 'k) \<times> 'w"
  new_ActiveNotebook_at :: "string \<Rightarrow> 'st \<Rightarrow> 'w \<Rightarrow> (js_error + 'n) \<times> 'w"
  new_ActiveNotebook_of :: "Notebook \<Rightarrow> 'w \<Rightarrow> (js_error + 'n) \<times> 'w"
  uuid_v4 :: "'w \<Rightarrow> string \<times> 'w"

section \<open>The default notebook of \<open>MessagePipeline\<close>\<close>

text \<open>
  \<open>_appendMarkdownCell\<close> and \<open>_appendCodeCell\<close>, lines 64-89 of the older variant.  The
  test \<open>!notebook.cells[id]\<close> succeeds only when the read gives \<open>undefined\<close>: a cell is an
  object, and so is every inherited member.  The code cell has no field \<open>active\<close>.
\<close>

definition appendMarkdownCell ::
  "('w, 'c, 'k, 'n, 'st) collaborators \<Rightarrow> Notebook \<Rightarrow> 'w \<Rightarrow> Notebook \<times> 'w" where
  "appendMarkdownCell env nb w =
     (case uuid_v4 env w of
        (ident, w') \<Rightarrow>
          (case js_get (cells nb) ident of
             Undefined \<Rightarrow>
               (nb\<lparr>cells := (cells nb)(ident \<mapsto>
                      \<lparr>cell_id = ident, cell_type = ''markdown'',
                       source = ''# DataLab has Markdown support'', active = Some True\<rparr>),
                   worksheet := worksheet nb @ [ident]\<rparr>, w')
           | Inherited \<Rightarrow> (nb, w')
           | Own c \<Rightarrow> (nb, w')))"

definition appendCodeCell ::
  "('w, 'c, 'k, 'n, 'st) collaborators \<Rightarrow> Notebook \<Rightarrow> 'w \<Rightarrow> Notebook \<times> 'w" where
  "appendCodeCell env nb w =
     (case uuid_v4 env w of
        (ident, w') \<Rightarrow>
          (case js_get (cells nb) ident of
             Undefined \<Rightarrow>
               (nb\<lparr>cells := (cells nb)(ident \<mapsto>
                      \<lparr>cell_id = ident, cell_type = ''code'', source = '''', active = None\<rparr>),
                   worksheet := worksheet nb @ [ident]\<rparr>, w')
           | Inherited \<Rightarrow> (nb, w')
           | Own c \<Rightarrow> (nb, w')))"

text \<open>\<open>_createBlankNotebook\<close>, lines 49-59 of the older variant.\<close>

definition createBlankNotebook ::
  "('w, 'c, 'k, 'n, 'st) collaborators \<Rightarrow> 'w \<Rightarrow> (js_error + 'n) \<times> 'w" where
  "createBlankNotebook env w =
     (case uuid_v4 env w of
        (ident, w1) \<Rightarrow>
          (case appendMarkdownCell env \<lparr>nb_id = ident, cells = Map.empty, worksheet = []\<rparr> w1 of
             (nb1, w2) \<Rightarrow>
               (case appendCodeCell env nb1 w2 of
                  (nb2, w3) \<Rightarrow> new_ActiveNotebook_of env nb2 w3)))"

section \<open>Creating and finding sessions\<close>

definition temp_notebook_path :: string where
  "temp_notebook_path = ''temp-notebook''"

text \<open>
  \<open>SessionManager._createSession\<close>, manager.ts lines 61-75.  The properties of the object
  literal are evaluated in the order written: the port for \<open>iopubPort\<close> is taken first.
\<close>

definition SessionManager_createSession ::
  "('w, 'c, 'k, 'n, 'st) collaborators \<Rightarrow> ('m, 's, 'c, 'k, 'n, 'st) SessionManager \<Rightarrow> string \<Rightarrow>
   'c \<Rightarrow> 'w \<Rightarrow> (js_error + ('c, 'k, 'n) Session) \<times> 'w" where
  "SessionManager_createSession env this sessionId connection w =
     (case getAvailablePort env w of
        (Inl e, w1) \<Rightarrow> (Inl e, w1)
      | (Inr iopub, w1) \<Rightarrow>
          (case getAvailablePort env w1 of
             (Inl e, w2) \<Rightarrow> (Inl e, w2)
           | (Inr shell, w2) \<Rightarrow>
               (case kernelManager_create env \<lparr>iopubPort = iopub, shellPort = shell\<rparr> w2 of
                  (Inl e, w3) \<Rightarrow> (Inl e, w3)
                | (Inr kn, w3) \<Rightarrow>
                    (case new_ActiveNotebook_at env temp_notebook_path (sm_storage this) w3 of
                       (Inl e, w4) \<Rightarrow> (Inl e, w4)
                     | (Inr nb, w4) \<Rightarrow>
                         (Inr (new_Session sessionId connection kn nb
                                 SessionManager_handleMessage_bound), w4)))))"

text \<open>\<open>MessagePipeline._createSession\<close>, lines 94-106 of the older variant.\<close>

definition MessagePipeline_createSession ::
  "('w, 'c, 'k, 'n, 'st) collaborators \<Rightarrow> ('m, 's, 'c, 'k, 'n) MessagePipeline \<Rightarrow> string \<Rightarrow>
   'c \<Rightarrow> 'w \<Rightarrow> (js_error + ('c, 'k, 'n) Session) \<times> 'w" where
  "MessagePipeline_createSession env this sessionId connection w =
     (case getAvailablePort env w of
        (Inl e, w1) \<Rightarrow> (Inl e, w1)
      | (Inr iopub, w1) \<Rightarrow>
          (case getAvailablePort env w1 of
             (Inl e, w2) \<Rightarrow> (Inl e, w2)
           | (Inr shell, w2) \<Rightarrow>
               (case kernelManager_create env \<lparr>iopubPort = iopub, shellPort = shell\<rparr> w2 of
                  (Inl e, w3) \<Rightarrow> (Inl e, w3)
                | (Inr kn, w3) \<Rightarrow>
                    (case createBlankNotebook env w3 of
                       (Inl e, w4) \<Rightarrow> (Inl e, w4)
                     | (Inr nb, w4) \<Rightarrow>
                         (Inr (new_Session sessionId connection kn nb
                                 MessagePipeline_handleMessage_bound), w4)))))"

text \<open>
  \<open>SessionManager._handleUserConnect\<close>, manager.ts lines 112-123.  The variable \<open>session\<close>
  holds what the read of \<open>_idToSession\<close> gives.  When that is an inherited member of
  \<open>Object.prototype\<close> the test \<open>!session\<close> fails, the \<open>else\<close> branch runs, and the call
  of \<open>session.updateUserConnection\<close>, which that member does not have, throws a
  \<open>TypeError\<close>.
\<close>

definition SessionManager_handleUserConnect ::
  "('w, 'c, 'k, 'n, 'st) collaborators \<Rightarrow> ('m, 's, 'c, 'k, 'n, 'st) SessionManager \<Rightarrow> 'c \<Rightarrow> 'w \<Rightarrow>
   (js_error + unit) \<times> ('m, 's, 'c, 'k, 'n, 'st) SessionManager \<times> 'w" where
  "SessionManager_handleUserConnect env this connection w =
     (let sessionId = getSessionId env connection in
      case js_get (sm_idToSession this) sessionId of
        Undefined \<Rightarrow>
          (case SessionManager_createSession env this sessionId connection w of
             (Inl e, w') \<Rightarrow> (Inl e, this, w')
           | (Inr session, w') \<Rightarrow>
               (Inr (), this\<lparr>sm_idToSession := (sm_idToSession this)(sessionId \<mapsto> session)\<rparr>, w'))
      | Own session \<Rightarrow>
          (Inr (),
           this\<lparr>sm_idToSession :=
             (sm_idToSession this)(sessionId \<mapsto> updateUserConnection session connection)\<rparr>, w)
      | Inherited \<Rightarrow>
          (Inl (TypeError ''session.updateUserConnection is not a function''), this, w))"

text \<open>\<open>MessagePipeline._handleUserConnect\<close>, lines 143-154 of the older variant.\<close>

definition MessagePipeline_handleUserConnect ::
  "('w, 'c, 'k, 'n, 'st) collaborators \<Rightarrow> ('m, 's, 'c, 'k, 'n) MessagePipeline \<Rightarrow> 'c \<Rightarrow> 'w \<Rightarrow>
   (js_error + unit) \<times> ('m, 's, 'c, 'k, 'n) MessagePipeline \<times> 'w" where
  "MessagePipeline_handleUserConnect env this connection w =
     (let sessionId = getSessionId env connection in
      case js_get (mp_idToSession this) sessionId of
        Undefined \<Rightarrow>
          (case MessagePipeline_createSession env this sessionId connection w of
             (Inl e, w') \<Rightarrow> (Inl e, this, w')
           | (Inr session, w') \<Rightarrow>
               (Inr (), this\<lparr>mp_idToSession := (mp_idToSession this)(sessionId \<mapsto> session)\<rparr>, w'))
      | Own session \<Rightarrow>
          (Inr (),
           this\<lparr>mp_idToSession :=
             (mp_idToSession this)(sessionId \<mapsto> updateUserConnection session connection)\<rparr>, w)
      | Inherited \<Rightarrow>
          (Inl (TypeError ''session.updateUserConnection is not a function''), this, w))"

text \<open>
  \<open>_handleUserDisconnect\<close>, manager.ts lines 125-129 and lines 156-160 of the older
  variant: the body is a comment.
\<close>

definition SessionManager_handleUserDisconnect ::
  "('w, 'c, 'k, 'n, 'st) collaborators \<Rightarrow> ('m, 's, 'c, 'k, 'n, 'st) SessionManager \<Rightarrow> 'c \<Rightarrow> 'w \<Rightarrow>
   (js_error + unit) \<times> ('m, 's, 'c, 'k, 'n, 'st) SessionManager \<times> 'w" where
  "SessionManager_handleUserDisconnect env this connection w = (Inr (), this, w)"

definition MessagePipeline_handleUserDisconnect ::
  "('w, 'c, 'k, 'n, 'st) collaborators \<Rightarrow> ('m, 's, 'c, 'k, 'n) MessagePipeline \<Rightarrow> 'c \<Rightarrow> 'w \<Rightarrow>
   (js_error + unit) \<times> ('m, 's, 'c, 'k, 'n) MessagePipeline \<times> 'w" where
  "MessagePipeline_handleUserDisconnect env this connection w = (Inr (), this, w)"

section \<open>A concrete configuration\<close>

text \<open>
  Instances on which the theorems below are evaluated.  Messages are numbers, a
  connection is a pair of a connection number and its session key, the outside world is a
  counter, ports are counted from 8000, a kernel handle is the iopub port it was created
  with, an active notebook is the path or the notebook it was constructed from, and the
  generated identifiers are \<open>a\<close>, \<open>aa\<close>, \<open>aaa\<close>, ...
\<close>

definition ex_stringify :: "nat jsval \<Rightarrow> js_error + string" where
  "ex_stringify v = Inr (case v of Null \<Rightarrow> ''null'' | Val n \<Rightarrow> replicate n (CHR ''1''))"

definition ex_inc :: "(nat, unit) MessageProcessor" where
  "ex_inc v s = Inr (case v of Null \<Rightarrow> Null | Val n \<Rightarrow> Val (Suc n))"

definition ex_double :: "(nat, unit) MessageProcessor" where
  "ex_double v s = Inr (case v of Null \<Rightarrow> Null | Val n \<Rightarrow> Val (2 * n))"

definition ex_veto :: "(nat, unit) MessageProcessor" where
  "ex_veto v s = Inr Null"

definition ex_fail :: "(nat, unit) MessageProcessor" where
  "ex_fail v s = Inl (Error ''boom'')"

definition ex_callback :: "nat EventHandler" where
  "ex_callback v = Inr ()"

definition ex_manager ::
  "(nat, unit) MessageProcessor list \<Rightarrow> (nat, unit, nat \<times> string, nat, string + Notebook, unit) SessionManager" where
  "ex_manager ps = \<lparr>sm_idToSession = Map.empty, sm_messageProcessors = ps, sm_storage = ()\<rparr>"

definition ex_pipeline ::
  "(nat, unit) MessageProcessor list \<Rightarrow> (nat, unit, nat \<times> string, nat, string + Notebook) MessagePipeline" where
  "ex_pipeline ps = \<lparr>mp_idToSession = Map.empty, mp_messageProcessors = ps\<rparr>"

definition ex_env :: "(nat, nat \<times> string, nat, string + Notebook, unit) collaborators" where
  "ex_env =
     \<lparr>getSessionId = snd,
      getAvailablePort = (\<lambda>w. (Inr (8000 + w), Suc w)),
      kernelManager_create = (\<lambda>cfg w. (Inr (iopubPort cfg), Suc w)),
      new_ActiveNotebook_at = (\<lambda>path st w. (Inr (Inl path), Suc w)),
      new_ActiveNotebook_of = (\<lambda>nb w. (Inr (Inr nb), Suc w)),
      uuid_v4 = (\<lambda>w. (replicate (Suc w) (CHR ''a''), Suc w))\<rparr>"

definition ex_env_no_kernel :: "(nat, nat \<times> string, nat, string + Notebook, unit) collaborators" where
  "ex_env_no_kernel =
     ex_env\<lparr>kernelManager_create := (\<lambda>cfg w. (Inl (Error ''kernel failed to start''), w))\<rparr>"

definition ex_env_no_storage :: "(nat, nat \<times> string, nat, string + Notebook, unit) collaborators" where
  "ex_env_no_storage =
     ex_env\<lparr>new_ActiveNotebook_at := (\<lambda>path st w. (Inl (Error ''storage failure''), w))\<rparr>"

definition ex_session :: "(nat \<times> string, nat, string + Notebook) Session" where
  "ex_session =
     \<lparr>session_id = ''abc'', userconn = Some (1, ''abc''), kernel = 8000,
      notebook = Inl ''temp-notebook'',
      messageHandler = SessionManager_handleMessage_bound\<rparr>"

definition ex_manager_abc :: "(nat, unit, nat \<times> string, nat, string + Notebook, unit) SessionManager" where
  "ex_manager_abc = (ex_manager [])\<lparr>sm_idToSession := [''abc'' \<mapsto> ex_session]\<rparr>"

definition ex_pipeline_abc :: "(nat, unit, nat \<times> string, nat, string + Notebook) MessagePipeline" where
  "ex_pipeline_abc = (ex_pipeline [])\<lparr>mp_idToSession := [''abc'' \<mapsto> ex_session]\<rparr>"

definition ex_notebook :: Notebook where
  "ex_notebook =
     \<lparr>nb_id = ''n'',
      cells = [''a'' \<mapsto> \<lparr>cell_id = ''a'', cell_type = ''code'', source = ''1 + 1'',
                          active = None\<rparr>],
      worksheet = [''a'']\<rparr>"

section \<open>Properties of the message handler\<close>

lemma SessionManager_loop_chain:
  "i \<le> length ps \<Longrightarrow>
   SessionManager_handleMessage_loop js ps message session i v tr =
     (case chain_from js message session i (drop i ps) v of (tr', out) \<Rightarrow> (tr @ tr', out))"
proof (induction js ps message session i v tr rule: SessionManager_handleMessage_loop.induct)
  case (1 js ps message session i v tr)
  show ?case
  proof (cases "i < length ps")
    case False
    with "1.prems" show ?thesis
      by (subst SessionManager_handleMessage_loop.simps) simp
  next
    case True
    then have d: "drop i ps = ps ! i # drop (Suc i) ps"
      by (simp add: Cons_nth_drop_Suc)
    show ?thesis
    proof (cases "(ps ! i) v session")
      case (Inl e)
      with True d show ?thesis
        by (subst SessionManager_handleMessage_loop.simps) simp
    next
      case (Inr r)
      show ?thesis
      proof (cases "r = Null")
        case True
        with \<open>i < length ps\<close> d Inr show ?thesis
          by (subst SessionManager_handleMessage_loop.simps) (simp split: sum.splits)
      next
        case False
        from "1.IH"[OF \<open>i < length ps\<close> Inr False] \<open>i < length ps\<close>
        have "SessionManager_handleMessage_loop js ps message session (Suc i) r
                (tr @ [Invoked i v]) =
              (case chain_from js message session (Suc i) (drop (Suc i) ps) r of
                 (tr', out) \<Rightarrow> ((tr @ [Invoked i v]) @ tr', out))"
          by simp
        with \<open>i < length ps\<close> d Inr False show ?thesis
          by (subst SessionManager_handleMessage_loop.simps) (simp split: prod.splits)
      qed
    qed
  qed
qed

lemma MessagePipeline_loop_chain:
  "i \<le> length ps \<Longrightarrow>
   MessagePipeline_handleMessage_loop js ps message session i v tr =
     (case chain_from js message session i (drop i ps) v of (tr', out) \<Rightarrow> (tr @ tr', out))"
proof (induction js ps message session i v tr rule: MessagePipeline_handleMessage_loop.induct)
  case (1 js ps message session i v tr)
  show ?case
  proof (cases "i < length ps")
    case False
    with "1.prems" show ?thesis
      by (subst MessagePipeline_handleMessage_loop.simps) simp
  next
    case True
    then have d: "drop i ps = ps ! i # drop (Suc i) ps"
      by (simp add: Cons_nth_drop_Suc)
    show ?thesis
    proof (cases "(ps ! i) v session")
      case (Inl e)
      with True d show ?thesis
        by (subst MessagePipeline_handleMessage_loop.simps) simp
    next
      case (Inr r)
      show ?thesis
      proof (cases "r = Null")
        case True
        with \<open>i < length ps\<close> d Inr show ?thesis
          by (subst MessagePipeline_handleMessage_loop.simps) (simp split: sum.splits)
      next
        case False
        from "1.IH"[OF \<open>i < length ps\<close> Inr False] \<open>i < length ps\<close>
        have "MessagePipeline_handleMessage_loop js ps message session (Suc i) r
                (tr @ [Invoked i v]) =
              (case chain_from js message session (Suc i) (drop (Suc i) ps) r of
                 (tr', out) \<Rightarrow> ((tr @ [Invoked i v]) @ tr', out))"
          by simp
        with \<open>i < length ps\<close> d Inr False show ?thesis
          by (subst MessagePipeline_handleMessage_loop.simps) (simp split: prod.splits)
      qed
    qed
  qed
qed

lemma SessionManager_loop_from_start:
  "SessionManager_handleMessage_loop js ps message session 0 message [] =
     chain_from js message session 0 ps message"
  using SessionManager_loop_chain[of 0 ps js message session message "[]"]
  by (simp split: prod.splits)

lemma MessagePipeline_loop_from_start:
  "MessagePipeline_handleMessage_loop js ps message session 0 message [] =
     chain_from js message session 0 ps message"
  using MessagePipeline_loop_chain[of 0 ps js message session message "[]"]
  by (simp split: prod.splits)

text \<open>
  The values \<open>vs ! 0, vs ! 1, ...\<close> are the successive values of \<open>processedMessage\<close>:
  \<open>vs ! 0\<close> is the message and \<open>vs ! Suc i\<close> is what processor \<open>i\<close> returns on \<open>vs ! i\<close>.
\<close>

lemma shift_steps:
  assumes "\<forall>j<Suc n. ((p # ps) ! j) ((v0 # vs') ! j) session = Inr ((v0 # vs') ! Suc j) \<and>
             (v0 # vs') ! Suc j \<noteq> Null"
  shows "p v0 session = Inr (vs' ! 0) \<and> vs' ! 0 \<noteq> Null \<and>
         (\<forall>j<n. (ps ! j) (vs' ! j) session = Inr (vs' ! Suc j) \<and> vs' ! Suc j \<noteq> Null)"
proof (intro conjI allI impI)
  from assms have "((p # ps) ! 0) ((v0 # vs') ! 0) session = Inr ((v0 # vs') ! Suc 0) \<and>
      (v0 # vs') ! Suc 0 \<noteq> Null"
    by blast
  then show "p v0 session = Inr (vs' ! 0)" and "vs' ! 0 \<noteq> Null" by simp_all
next
  fix j assume "j < n"
  then have "Suc j < Suc n" by simp
  with assms have "((p # ps) ! Suc j) ((v0 # vs') ! Suc j) session = Inr ((v0 # vs') ! Suc (Suc j)) \<and>
      (v0 # vs') ! Suc (Suc j) \<noteq> Null"
    by blast
  then show "(ps ! j) (vs' ! j) session = Inr (vs' ! Suc j)" and "vs' ! Suc j \<noteq> Null"
    by simp_all
qed

lemma chain_from_pass:
  "length vs = Suc (length ps) \<Longrightarrow>
   \<forall>i<length ps. (ps ! i) (vs ! i) session = Inr (vs ! Suc i) \<and> vs ! Suc i \<noteq> Null \<Longrightarrow>
   chain_from js message session k ps (vs ! 0) =
     (map (\<lambda>i. Invoked (k + i) (vs ! i)) [0..<length ps], Inr (vs ! length ps))"
proof (induction ps arbitrary: vs k)
  case Nil
  then show ?case by simp
next
  case (Cons p ps)
  from Cons.prems(1) obtain v0 vs' where vs: "vs = v0 # vs'" and len: "length vs' = Suc (length ps)"
    by (cases vs) auto
  from Cons.prems(2) vs have "\<forall>j<Suc (length ps).
      ((p # ps) ! j) ((v0 # vs') ! j) session = Inr ((v0 # vs') ! Suc j) \<and> (v0 # vs') ! Suc j \<noteq> Null"
    by simp
  from shift_steps[OF this]
  have h0: "p v0 session = Inr (vs' ! 0)" and n0: "vs' ! 0 \<noteq> Null"
    and hs: "\<forall>j<length ps. (ps ! j) (vs' ! j) session = Inr (vs' ! Suc j) \<and> vs' ! Suc j \<noteq> Null"
    by blast+
  from Cons.IH[OF len hs, of "Suc k"] h0 n0 vs show ?case
    by (simp add: map_upt_Suc del: upt_Suc)
qed

lemma chain_from_raise:
  "i < length ps \<Longrightarrow> length vs = Suc i \<Longrightarrow>
   \<forall>j<i. (ps ! j) (vs ! j) session = Inr (vs ! Suc j) \<and> vs ! Suc j \<noteq> Null \<Longrightarrow>
   (ps ! i) (vs ! i) session = Inl e \<Longrightarrow>
   chain_from js message session k ps (vs ! 0) =
     (map (\<lambda>j. Invoked (k + j) (vs ! j)) [0..<Suc i], Inl e)"
proof (induction ps arbitrary: vs k i)
  case Nil
  then show ?case by simp
next
  case (Cons p ps)
  from Cons.prems(2) obtain v0 vs' where vs: "vs = v0 # vs'" and len: "length vs' = i"
    by (cases vs) auto
  show ?case
  proof (cases i)
    case 0
    with Cons.prems(4) vs show ?thesis by simp
  next
    case (Suc i')
    from Cons.prems(3) vs Suc have "\<forall>j<Suc i'.
        ((p # ps) ! j) ((v0 # vs') ! j) session = Inr ((v0 # vs') ! Suc j) \<and> (v0 # vs') ! Suc j \<noteq> Null"
      by simp
    from shift_steps[OF this]
    have h0: "p v0 session = Inr (vs' ! 0)" and n0: "vs' ! 0 \<noteq> Null"
      and hs: "\<forall>j<i'. (ps ! j) (vs' ! j) session = Inr (vs' ! Suc j) \<and> vs' ! Suc j \<noteq> Null"
      by blast+
    from Cons.prems(1) Suc have lt: "i' < length ps" by simp
    from len Suc have len': "length vs' = Suc i'" by simp
    from Cons.prems(4) vs Suc have stop: "(ps ! i') (vs' ! i') session = Inl e" by simp
    from Cons.IH[OF lt len' hs stop, of "Suc k"] h0 n0 vs Suc show ?thesis
      by (simp add: map_upt_Suc del: upt_Suc)
  qed
qed

lemma chain_from_filter:
  "i < length ps \<Longrightarrow> length vs = Suc i \<Longrightarrow>
   \<forall>j<i. (ps ! j) (vs ! j) session = Inr (vs ! Suc j) \<and> vs ! Suc j \<noteq> Null \<Longrightarrow>
   (ps ! i) (vs ! i) session = Inr Null \<Longrightarrow>
   chain_from js message session k ps (vs ! 0) =
     (case js message of
        Inl e \<Rightarrow> (map (\<lambda>j. Invoked (k + j) (vs ! j)) [0..<Suc i], Inl e)
      | Inr str \<Rightarrow>
          (map (\<lambda>j. Invoked (k + j) (vs ! j)) [0..<Suc i] @ [ConsoleLog ''Filtered: '' str],
           Inr Null))"
proof (induction ps arbitrary: vs k i)
  case Nil
  then show ?case by simp
next
  case (Cons p ps)
  from Cons.prems(2) obtain v0 vs' where vs: "vs = v0 # vs'" and len: "length vs' = i"
    by (cases vs) auto
  show ?case
  proof (cases i)
    case 0
    with Cons.prems(4) vs show ?thesis by (simp split: sum.splits)
  next
    case (Suc i')
    from Cons.prems(3) vs Suc have "\<forall>j<Suc i'.
        ((p # ps) ! j) ((v0 # vs') ! j) session = Inr ((v0 # vs') ! Suc j) \<and> (v0 # vs') ! Suc j \<noteq> Null"
      by simp
    from shift_steps[OF this]
    have h0: "p v0 session = Inr (vs' ! 0)" and n0: "vs' ! 0 \<noteq> Null"
      and hs: "\<forall>j<i'. (ps ! j) (vs' ! j) session = Inr (vs' ! Suc j) \<and> vs' ! Suc j \<noteq> Null"
      by blast+
    from Cons.prems(1) Suc have lt: "i' < length ps" by simp
    from len Suc have len': "length vs' = Suc i'" by simp
    from Cons.prems(4) vs Suc have stop: "(ps ! i') (vs' ! i') session = Inr Null" by simp
    from Cons.IH[OF lt len' hs stop, of "Suc k"] h0 n0 vs Suc show ?thesis
      by (simp add: map_upt_Suc split: sum.splits del: upt_Suc)
  qed
qed

lemma deliveries_Invoked [simp]:
  "deliveries (map (\<lambda>j. Invoked (f j) (g j)) js) = []"
  by (induction js) simp_all

lemma invocations_Invoked [simp]:
  "invocations (map (\<lambda>j. Invoked (f j) (g j)) js) = map (\<lambda>j. (f j, g j)) js"
  by (induction js) simp_all

lemma deliveries_append [simp]: "deliveries (xs @ ys) = deliveries xs @ deliveries ys"
  by (induction xs rule: deliveries.induct) simp_all

lemma invocations_append [simp]: "invocations (xs @ ys) = invocations xs @ invocations ys"
  by (induction xs rule: invocations.induct) simp_all

lemma SessionManager_handleMessage_chain:
  "SessionManager_handleMessage js this message session callback =
     (case chain_from js message session 0 (sm_messageProcessors this) message of
        (tr, Inl e) \<Rightarrow> (tr, Inl e, this)
      | (tr, Inr processedMessage) \<Rightarrow>
          if processedMessage \<noteq> Null
          then (tr @ [Delivered processedMessage], callback processedMessage, this)
          else (tr, Inr (), this))"
  by (simp add: SessionManager_handleMessage_def SessionManager_loop_from_start)

lemma MessagePipeline_handleMessage_chain:
  "MessagePipeline_handleMessage js this message session callback =
     (case chain_from js message session 0 (mp_messageProcessors this) message of
        (tr, Inl e) \<Rightarrow> (tr, Inl e, this)
      | (tr, Inr processedMessage) \<Rightarrow>
          if processedMessage \<noteq> Null
          then (tr @ [Delivered processedMessage], callback processedMessage, this)
          else (tr, Inr (), this))"
  by (simp add: MessagePipeline_handleMessage_def MessagePipeline_loop_from_start)

lemma last_value_not_Null:
  assumes "length vs = Suc (length ps)" and "vs ! 0 = Val m"
    and "\<forall>i<length ps. (ps ! i) (vs ! i) session = Inr (vs ! Suc i) \<and> vs ! Suc i \<noteq> Null"
  shows "vs ! length ps \<noteq> Null"
proof (cases "length ps")
  case 0
  with assms(2) show ?thesis by simp
next
  case (Suc n)
  then have "n < length ps" by simp
  with assms(3) have "vs ! Suc n \<noteq> Null" by blast
  with Suc show ?thesis by simp
qed

lemma ex_manager_update: "(ex_manager qs)\<lparr>sm_messageProcessors := ps\<rparr> = ex_manager ps"
  by (simp add: ex_manager_def)

lemma ex_pipeline_update: "(ex_pipeline qs)\<lparr>mp_messageProcessors := ps\<rparr> = ex_pipeline ps"
  by (simp add: ex_pipeline_def)

text \<open>
  C1.  Let \<open>ps\<close> be the configured chain and \<open>Val m\<close> a message.  Write \<open>vs ! 0\<close> for the
  message and \<open>vs ! Suc i\<close> for the value processor \<open>i\<close> returns on \<open>vs ! i\<close>.  If every
  processor returns such a value and none of them is \<open>null\<close>, then the handler of either
  manager calls the processors \<open>0, ..., n - 1\<close> in this order, each on the value returned
  by the one before, then calls the delivery callback once, on the last value
  \<open>vs ! n\<close>, and does nothing else.  If the processors before \<open>i\<close> return non-null values
  and processor \<open>i\<close> returns \<open>null\<close>, the processors called are exactly \<open>0, ..., i\<close> and the
  delivery callback is not called.
\<close>

theorem handleMessage_delivers_once_or_drops:
  fixes ps :: "('m, 's) MessageProcessor list" and vs ws :: "'m jsval list"
  shows
    "(length vs = Suc (length ps) \<and> vs ! 0 = Val m \<and>
      (\<forall>i<length ps. (ps ! i) (vs ! i) session = Inr (vs ! Suc i) \<and> vs ! Suc i \<noteq> Null)
      \<longrightarrow>
        SessionManager_handleMessage js (sm\<lparr>sm_messageProcessors := ps\<rparr>) (Val m) session callback =
          (map (\<lambda>i. Invoked i (vs ! i)) [0..<length ps] @ [Delivered (vs ! length ps)],
           callback (vs ! length ps), sm\<lparr>sm_messageProcessors := ps\<rparr>) \<and>
        MessagePipeline_handleMessage js (mp\<lparr>mp_messageProcessors := ps\<rparr>) (Val m) session callback =
          (map (\<lambda>i. Invoked i (vs ! i)) [0..<length ps] @ [Delivered (vs ! length ps)],
           callback (vs ! length ps), mp\<lparr>mp_messageProcessors := ps\<rparr>))
     \<and>
     (i < length ps \<and> length ws = Suc i \<and> ws ! 0 = Val m \<and>
      (\<forall>j<i. (ps ! j) (ws ! j) session = Inr (ws ! Suc j) \<and> ws ! Suc j \<noteq> Null) \<and>
      (ps ! i) (ws ! i) session = Inr Null
      \<longrightarrow>
        (case SessionManager_handleMessage js (sm\<lparr>sm_messageProcessors := ps\<rparr>) (Val m) session
                callback of
           (tr, out, this) \<Rightarrow>
             deliveries tr = [] \<and> invocations tr = map (\<lambda>j. (j, ws ! j)) [0..<Suc i]) \<and>
        (case MessagePipeline_handleMessage js (mp\<lparr>mp_messageProcessors := ps\<rparr>) (Val m) session
                callback of
           (tr, out, this) \<Rightarrow>
             deliveries tr = [] \<and> invocations tr = map (\<lambda>j. (j, ws ! j)) [0..<Suc i]))"
proof (intro conjI impI)
  assume h: "length vs = Suc (length ps) \<and> vs ! 0 = Val m \<and>
      (\<forall>i<length ps. (ps ! i) (vs ! i) session = Inr (vs ! Suc i) \<and> vs ! Suc i \<noteq> Null)"
  then have c: "chain_from js (Val m) session 0 ps (Val m) =
      (map (\<lambda>i. Invoked i (vs ! i)) [0..<length ps], Inr (vs ! length ps))"
    using chain_from_pass[of vs ps session js "Val m" 0] by simp
  from h have n: "vs ! length ps \<noteq> Null"
    using last_value_not_Null[of vs ps m session] by blast
  from c n show "SessionManager_handleMessage js (sm\<lparr>sm_messageProcessors := ps\<rparr>) (Val m)
      session callback =
      (map (\<lambda>i. Invoked i (vs ! i)) [0..<length ps] @ [Delivered (vs ! length ps)],
       callback (vs ! length ps), sm\<lparr>sm_messageProcessors := ps\<rparr>)"
    by (simp add: SessionManager_handleMessage_chain)
  from c n show "MessagePipeline_handleMessage js (mp\<lparr>mp_messageProcessors := ps\<rparr>) (Val m)
      session callback =
      (map (\<lambda>i. Invoked i (vs ! i)) [0..<length ps] @ [Delivered (vs ! length ps)],
       callback (vs ! length ps), mp\<lparr>mp_messageProcessors := ps\<rparr>)"
    by (simp add: MessagePipeline_handleMessage_chain)
next
  assume h: "i < length ps \<and> length ws = Suc i \<and> ws ! 0 = Val m \<and>
      (\<forall>j<i. (ps ! j) (ws ! j) session = Inr (ws ! Suc j) \<and> ws ! Suc j \<noteq> Null) \<and>
      (ps ! i) (ws ! i) session = Inr Null"
  then have c: "chain_from js (Val m) session 0 ps (Val m) =
     (case js (Val m) of
        Inl e \<Rightarrow> (map (\<lambda>j. Invoked j (ws ! j)) [0..<Suc i], Inl e)
      | Inr str \<Rightarrow>
          (map (\<lambda>j. Invoked j (ws ! j)) [0..<Suc i] @ [ConsoleLog ''Filtered: '' str], Inr Null))"
    using chain_from_filter[of i ps ws session js "Val m" 0] by (simp cong: sum.case_cong)
  from c show "case SessionManager_handleMessage js (sm\<lparr>sm_messageProcessors := ps\<rparr>) (Val m)
      session callback of
      (tr, out, this) \<Rightarrow> deliveries tr = [] \<and> invocations tr = map (\<lambda>j. (j, ws ! j)) [0..<Suc i]"
    by (simp add: SessionManager_handleMessage_chain split: sum.splits del: upt_Suc)
  from c show "case MessagePipeline_handleMessage js (mp\<lparr>mp_messageProcessors := ps\<rparr>) (Val m)
      session callback of
      (tr, out, this) \<Rightarrow> deliveries tr = [] \<and> invocations tr = map (\<lambda>j. (j, ws ! j)) [0..<Suc i]"
    by (simp add: MessagePipeline_handleMessage_chain split: sum.splits del: upt_Suc)
qed

text \<open>
  C1 on the chain \<open>[ex_inc, ex_double]\<close> and the message 1, which is delivered as 4, and
  on the chain \<open>[ex_inc, ex_veto, ex_double]\<close>, where the second processor filters.
\<close>

theorem handleMessage_delivers_once_or_drops_witness:
  "SessionManager_handleMessage ex_stringify (ex_manager [ex_inc, ex_double]) (Val 1) ()
     ex_callback =
     ([Invoked 0 (Val 1), Invoked 1 (Val 2), Delivered (Val 4)], Inr (),
      ex_manager [ex_inc, ex_double]) \<and>
   MessagePipeline_handleMessage ex_stringify (ex_pipeline [ex_inc, ex_double]) (Val 1) ()
     ex_callback =
     ([Invoked 0 (Val 1), Invoked 1 (Val 2), Delivered (Val 4)], Inr (),
      ex_pipeline [ex_inc, ex_double]) \<and>
   deliveries (fst (SessionManager_handleMessage ex_stringify
     (ex_manager [ex_inc, ex_veto, ex_double]) (Val 1) () ex_callback)) = [] \<and>
   invocations (fst (SessionManager_handleMessage ex_stringify
     (ex_manager [ex_inc, ex_veto, ex_double]) (Val 1) () ex_callback)) =
     [(0, Val 1), (1, Val 2)] \<and>
   deliveries (fst (MessagePipeline_handleMessage ex_stringify
     (ex_pipeline [ex_inc, ex_veto, ex_double]) (Val 1) () ex_callback)) = [] \<and>
   invocations (fst (MessagePipeline_handleMessage ex_stringify
     (ex_pipeline [ex_inc, ex_veto, ex_double]) (Val 1) () ex_callback)) =
     [(0, Val 1), (1, Val 2)]"
  using handleMessage_delivers_once_or_drops[where vs = "[Val 1, Val 2, Val 4]"
      and ps = "[ex_inc, ex_double]" and m = 1 and session = "()" and js = ex_stringify
      and sm = "ex_manager []" and callback = ex_callback and mp = "ex_pipeline []"
      and i = 0 and ws = "[]"]
    handleMessage_delivers_once_or_drops[where vs = "[]"
      and ps = "[ex_inc, ex_veto, ex_double]" and m = 1 and session = "()"
      and js = ex_stringify and sm = "ex_manager []" and callback = ex_callback
      and mp = "ex_pipeline []" and i = 1 and ws = "[Val 1, Val 2]"]
  by (simp add: ex_manager_update ex_pipeline_update ex_inc_def ex_double_def ex_veto_def
      ex_callback_def less_Suc_eq all_conj_distrib split: prod.splits)

text \<open>
  A \<open>null\<close> handed in as the message is not delivered by an empty chain: the test before
  the callback does not tell it from a filtered message.
\<close>

lemma handleMessage_null_message:
  "SessionManager_handleMessage js (sm\<lparr>sm_messageProcessors := []\<rparr>) Null session callback =
     ([], Inr (), sm\<lparr>sm_messageProcessors := []\<rparr>)"
  by (simp add: SessionManager_handleMessage_chain)

text \<open>
  C7.  If the processors before \<open>i\<close> return non-null values and processor \<open>i\<close> throws \<open>e\<close>,
  then the handler of either manager has called exactly the processors \<open>0, ..., i\<close>, has
  not called the delivery callback, ends by throwing \<open>e\<close> to its caller, and leaves the
  manager as it was.
\<close>

theorem handleMessage_processor_error_aborts:
  fixes ps :: "('m, 's) MessageProcessor list" and vs :: "'m jsval list"
  assumes "i < length ps" and "length vs = Suc i" and "vs ! 0 = message"
    and "\<forall>j<i. (ps ! j) (vs ! j) session = Inr (vs ! Suc j) \<and> vs ! Suc j \<noteq> Null"
    and "(ps ! i) (vs ! i) session = Inl e"
  shows
    "SessionManager_handleMessage js (sm\<lparr>sm_messageProcessors := ps\<rparr>) message session callback =
       (map (\<lambda>j. Invoked j (vs ! j)) [0..<Suc i], Inl e, sm\<lparr>sm_messageProcessors := ps\<rparr>) \<and>
     MessagePipeline_handleMessage js (mp\<lparr>mp_messageProcessors := ps\<rparr>) message session callback =
       (map (\<lambda>j. Invoked j (vs ! j)) [0..<Suc i], Inl e, mp\<lparr>mp_messageProcessors := ps\<rparr>)"
proof -
  from assms have c: "chain_from js message session 0 ps message =
      (map (\<lambda>j. Invoked j (vs ! j)) [0..<Suc i], Inl e)"
    using chain_from_raise[of i ps vs session e js message 0] by simp
  then show ?thesis
    by (simp add: SessionManager_handleMessage_chain MessagePipeline_handleMessage_chain
        del: upt_Suc)
qed

text \<open>C7 on the chain \<open>[ex_inc, ex_fail, ex_double]\<close>, whose second processor throws.\<close>

theorem handleMessage_processor_error_aborts_witness:
  "SessionManager_handleMessage ex_stringify (ex_manager [ex_inc, ex_fail, ex_double]) (Val 1)
     () ex_callback =
     ([Invoked 0 (Val 1), Invoked 1 (Val 2)], Inl (Error ''boom''),
      ex_manager [ex_inc, ex_fail, ex_double]) \<and>
   MessagePipeline_handleMessage ex_stringify (ex_pipeline [ex_inc, ex_fail, ex_double]) (Val 1)
     () ex_callback =
     ([Invoked 0 (Val 1), Invoked 1 (Val 2)], Inl (Error ''boom''),
      ex_pipeline [ex_inc, ex_fail, ex_double])"
  using handleMessage_processor_error_aborts[where i = 1
      and ps = "[ex_inc, ex_fail, ex_double]" and vs = "[Val 1, Val 2]" and message = "Val 1"
      and session = "()" and e = "Error ''boom''" and js = ex_stringify
      and sm = "ex_manager []" and callback = ex_callback and mp = "ex_pipeline []"]
  by (simp add: ex_manager_update ex_pipeline_update ex_inc_def ex_fail_def)

text \<open>
  C10.  Given the same chain, message, session and callback, the handlers of
  \<open>SessionManager\<close> and of \<open>MessagePipeline\<close> produce the same sequence of processor calls,
  log lines and deliveries, and end the same way (return, or throw the same value).
\<close>

theorem handleMessage_variants_agree:
  "(case SessionManager_handleMessage js (sm\<lparr>sm_messageProcessors := ps\<rparr>) message session
          callback of (tr, out, this) \<Rightarrow> (tr, out)) =
   (case MessagePipeline_handleMessage js (mp\<lparr>mp_messageProcessors := ps\<rparr>) message session
          callback of (tr, out, this) \<Rightarrow> (tr, out))"
  by (simp add: SessionManager_handleMessage_chain MessagePipeline_handleMessage_chain
      split: prod.splits sum.splits)

section \<open>Properties of the registry\<close>

lemma js_get_Own: "obj key = Some v \<Longrightarrow> js_get obj key = Own v"
  by (simp add: js_get_def)

lemma js_get_Undefined:
  "js_get obj key = Undefined \<longleftrightarrow> obj key = None \<and> key \<notin> set Object_prototype_names"
  by (simp add: js_get_def split: option.splits)

text \<open>
  A first connection under a key that has no entry in the registry and is not the name of
  a member of \<open>Object.prototype\<close>: one Session is built from a kernel created with
  the two ports allocated in this order, the notebook opened at the fixed path, and the
  bound handler, and it is stored under the key.
\<close>

lemma SessionManager_connect_creates:
  assumes "getSessionId env connection = k"
    and "sm_idToSession this k = None" and "k \<notin> set Object_prototype_names"
    and "getAvailablePort env w = (Inr p1, w1)"
    and "getAvailablePort env w1 = (Inr p2, w2)"
    and "kernelManager_create env \<lparr>iopubPort = p1, shellPort = p2\<rparr> w2 = (Inr kn, w3)"
    and "new_ActiveNotebook_at env temp_notebook_path (sm_storage this) w3 = (Inr nb, w4)"
  shows "SessionManager_handleUserConnect env this connection w =
           (Inr (),
            this\<lparr>sm_idToSession := (sm_idToSession this)(k \<mapsto>
               \<lparr>session_id = k, userconn = Some connection, kernel = kn, notebook = nb,
                messageHandler = SessionManager_handleMessage_bound\<rparr>)\<rparr>, w4)"
  using assms
  by (simp add: SessionManager_handleUserConnect_def SessionManager_createSession_def
      new_Session_def js_get_def)

lemma SessionManager_connect_creates_example:
  "SessionManager_handleUserConnect ex_env (ex_manager []) (1, ''abc'') 0 =
     (Inr (), ex_manager_abc, 4)"
  using SessionManager_connect_creates[where env = ex_env and connection = "(1, ''abc'')"
      and k = "''abc''" and this = "ex_manager []" and w = 0 and ?p1.0 = 8000 and ?w1.0 = 1
      and ?p2.0 = 8001 and ?w2.0 = 2 and kn = 8000 and ?w3.0 = 3 and nb = "Inl ''temp-notebook''" and ?w4.0 = 4]
  by (simp add: ex_env_def ex_manager_def ex_manager_abc_def ex_session_def js_get_def
      Object_prototype_names_def temp_notebook_path_def)

text \<open>
  C2.  The registry is empty and the connection carries the key \<open>constructor\<close>.  No
  Session is created and none is registered: the read of the registry gives the inherited
  member of that name, the branch for an existing session runs, and the handler throws.
\<close>

theorem handleUserConnect_inherited_key:
  "SessionManager_handleUserConnect ex_env (ex_manager []) (1, ''constructor'') 0 =
     (Inl (TypeError ''session.updateUserConnection is not a function''), ex_manager [], 0)"
  by (simp add: SessionManager_handleUserConnect_def ex_env_def ex_manager_def js_get_def
      Object_prototype_names_def)

text \<open>
  C3.  A connection under a key \<open>k\<close> that has an entry \<open>s\<close> in the registry: the handler
  of either manager returns normally, calls no collaborator (the outside world is as
  before), and changes the manager only in that the entry under \<open>k\<close> is the result of
  \<open>updateUserConnection\<close> on \<open>s\<close> and the new connection.  That result has the kernel,
  the notebook, the key and the forwarding callback of \<open>s\<close>, and the registry has the
  same keys as before.
\<close>

theorem reconnect_updates_only_connection:
  assumes "getSessionId env connection = k"
  shows
    "(sm_idToSession sm k = Some s \<longrightarrow>
        SessionManager_handleUserConnect env sm connection w =
          (Inr (),
           sm\<lparr>sm_idToSession := (sm_idToSession sm)(k \<mapsto> updateUserConnection s connection)\<rparr>,
           w) \<and>
        dom ((sm_idToSession sm)(k \<mapsto> updateUserConnection s connection)) =
          dom (sm_idToSession sm)) \<and>
     (mp_idToSession mp k = Some s \<longrightarrow>
        MessagePipeline_handleUserConnect env mp connection w =
          (Inr (),
           mp\<lparr>mp_idToSession := (mp_idToSession mp)(k \<mapsto> updateUserConnection s connection)\<rparr>,
           w) \<and>
        dom ((mp_idToSession mp)(k \<mapsto> updateUserConnection s connection)) =
          dom (mp_idToSession mp)) \<and>
     kernel (updateUserConnection s connection) = kernel s \<and>
     notebook (updateUserConnection s connection) = notebook s \<and>
     session_id (updateUserConnection s connection) = session_id s \<and>
     messageHandler (updateUserConnection s connection) = messageHandler s \<and>
     userconn (updateUserConnection s connection) = Some connection"
  using assms
  by (auto simp add: SessionManager_handleUserConnect_def MessagePipeline_handleUserConnect_def
      js_get_def updateUserConnection_def)

theorem reconnect_updates_only_connection_witness:
  "SessionManager_handleUserConnect ex_env ex_manager_abc (2, ''abc'') 7 =
     (Inr (),
      ex_manager_abc\<lparr>sm_idToSession := [''abc'' \<mapsto> ex_session\<lparr>userconn := Some (2, ''abc'')\<rparr>]\<rparr>,
      7) \<and>
   MessagePipeline_handleUserConnect ex_env ex_pipeline_abc (2, ''abc'') 7 =
     (Inr (),
      ex_pipeline_abc\<lparr>mp_idToSession := [''abc'' \<mapsto> ex_session\<lparr>userconn := Some (2, ''abc'')\<rparr>]\<rparr>,
      7) \<and>
   kernel (updateUserConnection ex_session (2, ''abc'')) = 8000 \<and>
   notebook (updateUserConnection ex_session (2, ''abc'')) = Inl ''temp-notebook''"
  using reconnect_updates_only_connection[where env = ex_env and connection = "(2, ''abc'')"
      and k = "''abc''" and sm = ex_manager_abc and mp = ex_pipeline_abc and s = ex_session
      and w = 7]
  by (simp add: ex_env_def ex_manager_abc_def ex_pipeline_abc_def ex_session_def
      updateUserConnection_def)

text \<open>Whenever the connect handler throws, the manager is as it was before.\<close>

lemma SessionManager_connect_failure_keeps_manager:
  "SessionManager_handleUserConnect env sm connection w = (Inl e, sm', w') \<Longrightarrow> sm' = sm"
  by (auto simp add: SessionManager_handleUserConnect_def Let_def
      split: js_property.splits prod.splits sum.splits)

lemma MessagePipeline_connect_failure_keeps_manager:
  "MessagePipeline_handleUserConnect env mp connection w = (Inl e, mp', w') \<Longrightarrow> mp' = mp"
  by (auto simp add: MessagePipeline_handleUserConnect_def Let_def
      split: js_property.splits prod.splits sum.splits)

text \<open>
  C4.  A connection under a key \<open>k\<close> that has no entry in the registry, so that the
  creation of a session is attempted (\<open>k\<close> is not the name of a member of
  \<open>Object.prototype\<close>).  If \<open>_createSession\<close> throws \<open>e\<close>, the connect handler throws \<open>e\<close> and the manager, with its
  registry, is as before.  This is so in particular when the two ports are allocated and
  the creation of the kernel throws, and when the kernel is created and the construction of
  the notebook throws.
\<close>

theorem failed_binding_registers_nothing:
  assumes "getSessionId env connection = k"
    and "sm_idToSession sm k = None" and "k \<notin> set Object_prototype_names"
  shows
    "(SessionManager_createSession env sm k connection w = (Inl e, w') \<longrightarrow>
        SessionManager_handleUserConnect env sm connection w = (Inl e, sm, w')) \<and>
     (getAvailablePort env w = (Inr p1, w1) \<and> getAvailablePort env w1 = (Inr p2, w2) \<and>
      kernelManager_create env \<lparr>iopubPort = p1, shellPort = p2\<rparr> w2 = (Inl e, w3) \<longrightarrow>
        SessionManager_handleUserConnect env sm connection w = (Inl e, sm, w3)) \<and>
     (getAvailablePort env w = (Inr p1, w1) \<and> getAvailablePort env w1 = (Inr p2, w2) \<and>
      kernelManager_create env \<lparr>iopubPort = p1, shellPort = p2\<rparr> w2 = (Inr kn, w3) \<and>
      new_ActiveNotebook_at env temp_notebook_path (sm_storage sm) w3 = (Inl e, w4) \<longrightarrow>
        SessionManager_handleUserConnect env sm connection w = (Inl e, sm, w4))"
  using assms
  by (simp add: SessionManager_handleUserConnect_def SessionManager_createSession_def js_get_def)

theorem failed_binding_registers_nothing_witness:
  "SessionManager_handleUserConnect ex_env_no_kernel (ex_manager []) (1, ''abc'') 0 =
     (Inl (Error ''kernel failed to start''), ex_manager [], 2) \<and>
   SessionManager_handleUserConnect ex_env_no_storage (ex_manager []) (1, ''abc'') 0 =
     (Inl (Error ''storage failure''), ex_manager [], 3)"
  using failed_binding_registers_nothing[where env = ex_env_no_kernel
      and connection = "(1, ''abc'')" and k = "''abc''" and sm = "ex_manager []" and w = 0
      and ?p1.0 = 8000 and ?w1.0 = 1 and ?p2.0 = 8001 and ?w2.0 = 2
      and e = "Error ''kernel failed to start''" and ?w3.0 = 2]
    failed_binding_registers_nothing[where env = ex_env_no_storage
      and connection = "(1, ''abc'')" and k = "''abc''" and sm = "ex_manager []" and w = 0
      and ?p1.0 = 8000 and ?w1.0 = 1 and ?p2.0 = 8001 and ?w2.0 = 2 and kn = 8000
      and ?w3.0 = 3 and e = "Error ''storage failure''" and ?w4.0 = 3]
  by (simp add: ex_env_no_kernel_def ex_env_no_storage_def ex_env_def ex_manager_def
      js_get_def Object_prototype_names_def temp_notebook_path_def)

text \<open>
  C8, as amended.  The disconnect handler of either manager returns normally and changes
  nothing, whatever the connection: the manager, hence the registry and every Session in it with its connection
  reference, kernel and notebook, and the outside world are as before.
\<close>

theorem handleUserDisconnect_changes_nothing:
  "SessionManager_handleUserDisconnect env sm connection w = (Inr (), sm, w) \<and>
   MessagePipeline_handleUserDisconnect env mp connection w = (Inr (), mp, w)"
  by (simp add: SessionManager_handleUserDisconnect_def MessagePipeline_handleUserDisconnect_def)

text \<open>
  C8 as stated fails.  The session under \<open>abc\<close> holds connection 1; after the disconnect
  event of that connection its connection reference is still connection 1, not cleared.
\<close>

theorem handleUserDisconnect_keeps_connection:
  "sm_idToSession ex_manager_abc ''abc'' = Some ex_session \<and>
   userconn ex_session = Some (1, ''abc'') \<and>
   map_option userconn
     (sm_idToSession
        (fst (snd (SessionManager_handleUserDisconnect ex_env ex_manager_abc (1, ''abc'') 7)))
        ''abc'') = Some (Some (1, ''abc'')) \<and>
   map_option userconn
     (sm_idToSession
        (fst (snd (SessionManager_handleUserDisconnect ex_env ex_manager_abc (1, ''abc'') 7)))
        ''abc'') \<noteq> Some None \<and>
   map_option userconn
     (mp_idToSession
        (fst (snd (MessagePipeline_handleUserDisconnect ex_env ex_pipeline_abc (1, ''abc'') 7)))
        ''abc'') \<noteq> Some None"
  by (simp add: SessionManager_handleUserDisconnect_def MessagePipeline_handleUserDisconnect_def
      ex_manager_abc_def ex_pipeline_abc_def ex_session_def)

text \<open>
  Two connect events under the same new key, handled one after the other: the second
  finds the Session the first has stored, creates nothing and allocates nothing.
\<close>

lemma SessionManager_connect_twice:
  assumes "getSessionId env c1 = k" and "getSessionId env c2 = k"
    and "sm_idToSession sm k = None" and "k \<notin> set Object_prototype_names"
    and "SessionManager_handleUserConnect env sm c1 w = (Inr (), sm1, w1)"
  shows "\<exists>s. sm_idToSession sm1 k = Some s \<and>
           SessionManager_handleUserConnect env sm1 c2 w1 =
             (Inr (),
              sm1\<lparr>sm_idToSession := (sm_idToSession sm1)(k \<mapsto> updateUserConnection s c2)\<rparr>, w1) \<and>
           dom (sm_idToSession sm1) = insert k (dom (sm_idToSession sm))"
  using assms
  by (auto simp add: SessionManager_handleUserConnect_def js_get_def
      split: prod.splits sum.splits option.splits if_splits)

section \<open>Properties of the default notebook\<close>

text \<open>
  C5.  Let \<open>nid\<close>, \<open>mid\<close> and \<open>cid\<close> be the three identifiers the generator gives in this
  order.  If \<open>mid\<close> and \<open>cid\<close> differ and neither is the name of a member of
  \<open>Object.prototype\<close>, as is the case for identifiers in the format of a UUID, then the
  notebook handed to the constructor of \<open>ActiveNotebook\<close> has the worksheet
  \<open>[mid, cid]\<close> and a cell table of exactly two cells: under \<open>mid\<close> the markdown cell with
  the fixed text, under \<open>cid\<close> the code cell with the empty source.
\<close>

theorem createBlankNotebook_two_cells:
  assumes "uuid_v4 env w = (nid, w1)" and "uuid_v4 env w1 = (mid, w2)"
    and "uuid_v4 env w2 = (cid, w3)"
    and "mid \<noteq> cid"
    and "mid \<notin> set Object_prototype_names" and "cid \<notin> set Object_prototype_names"
  shows "createBlankNotebook env w =
           new_ActiveNotebook_of env
             \<lparr>nb_id = nid,
              cells = [mid \<mapsto> \<lparr>cell_id = mid, cell_type = ''markdown'',
                               source = ''# DataLab has Markdown support'', active = Some True\<rparr>,
                       cid \<mapsto> \<lparr>cell_id = cid, cell_type = ''code'', source = '''',
                               active = None\<rparr>],
              worksheet = [mid, cid]\<rparr> w3"
  using assms
  by (simp add: createBlankNotebook_def appendMarkdownCell_def appendCodeCell_def js_get_def)

theorem createBlankNotebook_two_cells_witness:
  "createBlankNotebook ex_env 0 =
     (Inr (Inr \<lparr>nb_id = ''a'',
        cells = [''aa'' \<mapsto> \<lparr>cell_id = ''aa'', cell_type = ''markdown'',
                            source = ''# DataLab has Markdown support'', active = Some True\<rparr>,
                 ''aaa'' \<mapsto> \<lparr>cell_id = ''aaa'', cell_type = ''code'', source = '''',
                             active = None\<rparr>],
        worksheet = [''aa'', ''aaa'']\<rparr>), 4)"
  using createBlankNotebook_two_cells[where env = ex_env and w = 0 and nid = "''a''"
      and ?w1.0 = 1 and mid = "''aa''" and ?w2.0 = 2 and cid = "''aaa''" and ?w3.0 = 3]
  by (simp add: ex_env_def Object_prototype_names_def numeral_2_eq_2 numeral_3_eq_3)

lemma append_noop_when_found:
  "js_get (cells d) (fst (uuid_v4 env w)) \<noteq> Undefined \<Longrightarrow>
   appendMarkdownCell env d w = (d, snd (uuid_v4 env w)) \<and>
   appendCodeCell env d w = (d, snd (uuid_v4 env w))"
  by (cases "uuid_v4 env w")
    (auto simp add: appendMarkdownCell_def appendCodeCell_def split: js_property.splits)

lemma append_then_found:
  "js_get (cells (fst (appendMarkdownCell env d w))) (fst (uuid_v4 env w)) \<noteq> Undefined"
  "js_get (cells (fst (appendCodeCell env d w))) (fst (uuid_v4 env w)) \<noteq> Undefined"
  by (simp_all add: appendMarkdownCell_def appendCodeCell_def js_get_def
      split: prod.splits js_property.splits option.splits)

lemma append_keeps_found:
  "js_get (cells d) i \<noteq> Undefined \<Longrightarrow>
   js_get (cells (fst (appendMarkdownCell env d w))) i \<noteq> Undefined"
  "js_get (cells d) i \<noteq> Undefined \<Longrightarrow>
   js_get (cells (fst (appendCodeCell env d w))) i \<noteq> Undefined"
  by (auto simp add: appendMarkdownCell_def appendCodeCell_def js_get_def
      split: prod.splits js_property.splits option.splits if_splits)

text \<open>
  C6.  If the identifier the generator gives is \<open>i\<close> and the cell table of \<open>d\<close> has a cell
  under \<open>i\<close>, then appending a markdown cell and appending a code cell both leave \<open>d\<close> as
  it is.  Moreover, for every notebook \<open>d\<close>: after the two appends have run from the
  generator state \<open>w\<close>, running them again from the same state \<open>w\<close>, so that the same
  two identifiers come again, changes nothing.
\<close>

theorem append_existing_id_is_noop:
  "(fst (uuid_v4 env w) = i \<and> cells d i = Some c \<longrightarrow>
      fst (appendMarkdownCell env d w) = d \<and> fst (appendCodeCell env d w) = d) \<and>
   (case appendMarkdownCell env d w of
      (d1, w1) \<Rightarrow>
        (case appendCodeCell env d1 w1 of
           (d2, w2) \<Rightarrow>
             (case appendMarkdownCell env d2 w of
                (d3, w3) \<Rightarrow>
                  (case appendCodeCell env d3 w3 of
                     (d4, w4) \<Rightarrow> d3 = d2 \<and> w3 = w1 \<and> d4 = d2 \<and> w4 = w2))))"
proof (intro conjI impI)
  assume "fst (uuid_v4 env w) = i \<and> cells d i = Some c"
  then have "js_get (cells d) (fst (uuid_v4 env w)) \<noteq> Undefined"
    by (simp add: js_get_def)
  from append_noop_when_found[OF this]
  show "fst (appendMarkdownCell env d w) = d" and "fst (appendCodeCell env d w) = d"
    by simp_all
next
  obtain d1 w1 where a1: "appendMarkdownCell env d w = (d1, w1)"
    by (cases "appendMarkdownCell env d w")
  obtain d2 w2 where a2: "appendCodeCell env d1 w1 = (d2, w2)"
    by (cases "appendCodeCell env d1 w1")
  have w1: "w1 = snd (uuid_v4 env w)" using a1
    by (auto simp add: appendMarkdownCell_def split: prod.splits js_property.splits)
  have w2: "w2 = snd (uuid_v4 env w1)" using a2
    by (auto simp add: appendCodeCell_def split: prod.splits js_property.splits)
  have "js_get (cells d1) (fst (uuid_v4 env w)) \<noteq> Undefined"
    using append_then_found(1)[of env d w] a1 by simp
  then have "js_get (cells d2) (fst (uuid_v4 env w)) \<noteq> Undefined"
    using append_keeps_found(2)[of d1 "fst (uuid_v4 env w)" env w1] a2 by simp
  from append_noop_when_found[OF this] w1
  have a3: "appendMarkdownCell env d2 w = (d2, w1)" by simp
  have "js_get (cells d2) (fst (uuid_v4 env w1)) \<noteq> Undefined"
    using append_then_found(2)[of env d1 w1] a2 by simp
  from append_noop_when_found[OF this] w2
  have a4: "appendCodeCell env d2 w1 = (d2, w2)" by simp
  from a1 a2 a3 a4 show "case appendMarkdownCell env d w of
      (d1, w1) \<Rightarrow>
        (case appendCodeCell env d1 w1 of
           (d2, w2) \<Rightarrow>
             (case appendMarkdownCell env d2 w of
                (d3, w3) \<Rightarrow>
                  (case appendCodeCell env d3 w3 of
                     (d4, w4) \<Rightarrow> d3 = d2 \<and> w3 = w1 \<and> d4 = d2 \<and> w4 = w2)))"
    by simp
qed

theorem append_existing_id_is_noop_witness:
  "fst (uuid_v4 ex_env 0) = ''a'' \<and> cells ex_notebook ''a'' \<noteq> None \<and>
   fst (appendMarkdownCell ex_env ex_notebook 0) = ex_notebook \<and>
   fst (appendCodeCell ex_env ex_notebook 0) = ex_notebook \<and>
   worksheet (fst (appendCodeCell ex_env (fst (appendMarkdownCell ex_env ex_notebook 1)) 2)) =
     [''a'', ''aa'', ''aaa''] \<and>
   fst (appendCodeCell ex_env
     (fst (appendMarkdownCell ex_env
        (fst (appendCodeCell ex_env (fst (appendMarkdownCell ex_env ex_notebook 1)) 2)) 1)) 2) =
   fst (appendCodeCell ex_env (fst (appendMarkdownCell ex_env ex_notebook 1)) 2)"
  using append_existing_id_is_noop[where env = ex_env and w = 0 and i = "''a''"
      and d = ex_notebook
      and c = "\<lparr>cell_id = ''a'', cell_type = ''code'', source = ''1 + 1'', active = None\<rparr>"]
    append_existing_id_is_noop[where env = ex_env and w = 1 and d = ex_notebook]
  by (simp add: ex_env_def ex_notebook_def appendMarkdownCell_def appendCodeCell_def js_get_def
      Object_prototype_names_def numeral_2_eq_2 numeral_3_eq_3 split: prod.splits)

end
